theory Spec2Isabelle
  imports Main "HOL-Library.AList"
begin

section \<open>Values and dictionaries\<close>

text \<open>
  The handlers of \<^verbatim>\<open>main.py\<close> build and read Python dictionaries whose values are
  strings, booleans, \<^verbatim>\<open>None\<close>, store identifiers and one \<^verbatim>\<open>datetime\<close> (the expiry).
  A dictionary is an association list: insertion order is kept and a key occurs once in
  every dictionary the handlers build. A \<^verbatim>\<open>datetime\<close> is a number of microseconds since
  the epoch (UTC), a \<^verbatim>\<open>timedelta\<close> a number of microseconds. Characters are code points
  below 256.
\<close>

datatype pyval = PStr string | PBool bool | PNone | PObjectId nat | PDatetime int

type_synonym dict = "(string \<times> pyval) list"

text \<open>\<^verbatim>\<open>d.get(k, default)\<close>; \<^verbatim>\<open>d.get(k)\<close> is \<^verbatim>\<open>d.get(k, None)\<close>.\<close>

definition dict_get :: "dict \<Rightarrow> string \<Rightarrow> pyval \<Rightarrow> pyval" where
  "dict_get d k dflt = (case map_of d k of None \<Rightarrow> dflt | Some v \<Rightarrow> v)"

text \<open>\<^verbatim>\<open>d.update(other)\<close>: every item of \<^verbatim>\<open>other\<close> is stored into \<^verbatim>\<open>d\<close>, in order.\<close>

definition dict_update :: "dict \<Rightarrow> dict \<Rightarrow> dict" where
  "dict_update d other = fold (\<lambda>(k, v). AList.update k v) other d"

text \<open>
  \<^verbatim>\<open>str(v)\<close>. The text of a store identifier and of a \<^verbatim>\<open>datetime\<close> is some string that
  the handlers never inspect; it is left unspecified.
\<close>

fun py_str :: "pyval \<Rightarrow> string" where
  "py_str (PStr s) = s"
| "py_str (PBool b) = (if b then ''True'' else ''False'')"
| "py_str PNone = ''None''"

fun is_str :: "pyval \<Rightarrow> bool" where
  "is_str (PStr s) = True"
| "is_str v = False"

section \<open>String operations\<close>

text \<open>\<^verbatim>\<open>str.lower()\<close> on code points below 256: A-Z and the Latin-1 capitals move up by 32.\<close>

definition lower_char :: "char \<Rightarrow> char" where
  "lower_char c =
     (let n = (of_char c :: nat)
      in if (65 \<le> n \<and> n \<le> 90) \<or> (192 \<le> n \<and> n \<le> 222 \<and> n \<noteq> 215)
         then char_of (n + 32) else c)"

definition lower :: "string \<Rightarrow> string" where
  "lower s = map lower_char s"

text \<open>\<^verbatim>\<open>str.isspace()\<close> for one character, and \<^verbatim>\<open>str.strip()\<close> with no argument.\<close>

definition is_space :: "char \<Rightarrow> bool" where
  "is_space c =
     (let n = (of_char c :: nat)
      in (9 \<le> n \<and> n \<le> 13) \<or> (28 \<le> n \<and> n \<le> 32) \<or> n = 133 \<or> n = 160)"

definition strip :: "string \<Rightarrow> string" where
  "strip s = rev (dropWhile is_space (rev (dropWhile is_space s)))"

section \<open>Request and response models\<close>

record SignupRequest =
  name :: string
  email :: string
  password :: string

record LoginRequest =
  email :: string
  password :: string

text \<open>A signed token is the triple handed to \<^verbatim>\<open>jwt.encode\<close>: payload, key, algorithm.\<close>

datatype jwt = JWT (jwt_payload: dict) (jwt_key: string) (jwt_algorithm: string)

record AuthResponse =
  token :: jwt
  user :: dict

datatype error = HTTPException (status_code: nat) (detail: string)

section \<open>External collaborators\<close>

text \<open>
  The process environment, the password hashing context and the e-mail syntax check are
  libraries outside the repository: they are parameters of the model. The hash handed to
  \<^verbatim>\<open>verify\<close> is whatever value the user document holds.
\<close>

record prims =
  getenv :: "string \<Rightarrow> string option"
  pwd_context_hash :: "string \<Rightarrow> string"
  pwd_context_verify :: "string \<Rightarrow> pyval \<Rightarrow> bool"
  EmailStr :: "string \<Rightarrow> bool"

text \<open>
  The module \<^verbatim>\<open>database\<close> (\<^verbatim>\<open>db\<close>, \<^verbatim>\<open>get_documents\<close>, \<^verbatim>\<open>create_document\<close>) is imported by
  \<^verbatim>\<open>main.py\<close>. The handlers are written over any implementation of its two functions;
  \<^verbatim>\<open>db\<close> is the handle, \<open>None\<close> when it is unset. \<^verbatim>\<open>create_document\<close> returns the
  identifier and the store after the insert.
\<close>

record 'db store =
  get_documents :: "'db \<Rightarrow> string \<Rightarrow> dict \<Rightarrow> nat \<Rightarrow> dict list"
  create_document :: "'db \<Rightarrow> string \<Rightarrow> dict \<Rightarrow> pyval \<times> 'db"

section \<open>Security / JWT setup\<close>

definition SECRET_KEY :: "prims \<Rightarrow> string" where
  "SECRET_KEY P = (case getenv P ''SECRET_KEY'' of None \<Rightarrow> ''dev-secret-change-me'' | Some k \<Rightarrow> k)"

definition ALGORITHM :: string where
  "ALGORITHM = ''HS256''"

definition ACCESS_TOKEN_EXPIRE_MINUTES :: int where
  "ACCESS_TOKEN_EXPIRE_MINUTES = 60 * 24 * 7"

definition timedelta_minutes :: "int \<Rightarrow> int" where
  "timedelta_minutes m = m * 60000000"

definition SignupRequest_valid :: "prims \<Rightarrow> SignupRequest \<Rightarrow> bool" where
  "SignupRequest_valid P p =
     (2 \<le> length (name p) \<and> length (name p) \<le> 80 \<and> EmailStr P (SignupRequest.email p) \<and>
      6 \<le> length (SignupRequest.password p) \<and> length (SignupRequest.password p) \<le> 128)"

definition LoginRequest_valid :: "prims \<Rightarrow> LoginRequest \<Rightarrow> bool" where
  "LoginRequest_valid P p =
     (EmailStr P (LoginRequest.email p) \<and>
      6 \<le> length (LoginRequest.password p) \<and> length (LoginRequest.password p) \<le> 128)"

section \<open>Helpers\<close>

definition hash_password :: "prims \<Rightarrow> string \<Rightarrow> string" where
  "hash_password P pw = pwd_context_hash P pw"

definition verify_password :: "prims \<Rightarrow> string \<Rightarrow> pyval \<Rightarrow> bool" where
  "verify_password P pw password_hash = pwd_context_verify P pw password_hash"

definition jwt_encode :: "dict \<Rightarrow> string \<Rightarrow> string \<Rightarrow> jwt" where
  "jwt_encode payload key alg = JWT payload key alg"

text \<open>
  \<^verbatim>\<open>create_access_token(data, expires_delta=None)\<close>, called at time \<open>now\<close>. In
  \<^verbatim>\<open>expires_delta or timedelta(...)\<close> a zero \<^verbatim>\<open>timedelta\<close> is falsy, as \<^verbatim>\<open>None\<close> is.
\<close>

definition expiry :: "int \<Rightarrow> int option \<Rightarrow> int" where
  "expiry now expires_delta =
     now + (case expires_delta of
              None \<Rightarrow> timedelta_minutes ACCESS_TOKEN_EXPIRE_MINUTES
            | Some d \<Rightarrow> if d \<noteq> 0 then d else timedelta_minutes ACCESS_TOKEN_EXPIRE_MINUTES)"

definition create_access_token :: "prims \<Rightarrow> int \<Rightarrow> dict \<Rightarrow> int option \<Rightarrow> jwt" where
  "create_access_token P now data expires_delta =
     (let to_encode = data;
          expire = expiry now expires_delta;
          to_encode = dict_update to_encode [(''exp'', PDatetime expire)];
          encoded_jwt = jwt_encode to_encode (SECRET_KEY P) ALGORITHM
      in encoded_jwt)"

section \<open>Routes\<close>

text \<open>
  A handler takes the store handle and returns its response or the exception it raises,
  with the store handle afterwards.
\<close>

text \<open>The dictionary literal \<^verbatim>\<open>user_doc\<close> of \<^verbatim>\<open>signup\<close>.\<close>

definition user_doc :: "prims \<Rightarrow> SignupRequest \<Rightarrow> dict" where
  "user_doc P payload =
     [(''name'', PStr (strip (name payload))),
      (''email'', PStr (lower (SignupRequest.email payload))),
      (''password_hash'', PStr (hash_password P (SignupRequest.password payload))),
      (''is_active'', PBool True),
      (''role'', PStr ''user'')]"

text \<open>
  \<^verbatim>\<open>user_doc["k"]\<close>, for a key \<^verbatim>\<open>k\<close> that the literal holds: no \<^verbatim>\<open>KeyError\<close> can arise, and
  the entry is what \<^verbatim>\<open>get\<close> finds.
\<close>

definition signup ::
  "prims \<Rightarrow> 'db store \<Rightarrow> int \<Rightarrow> 'db option \<Rightarrow> SignupRequest \<Rightarrow> (error + AuthResponse) \<times> 'db option" where
  "signup P S now db payload =
     (case db of
        None \<Rightarrow> (Inl (HTTPException 500 ''Database not configured''), db)
      | Some h \<Rightarrow>
          let existing = get_documents S h ''user'' [(''email'', PStr (lower (SignupRequest.email payload)))] 1
          in if existing \<noteq> [] then (Inl (HTTPException 400 ''Email already registered''), db)
             else
               let doc = user_doc P payload;
                   (user_id, h') = create_document S h ''user'' doc;
                   token = create_access_token P now
                             [(''sub'', PStr (py_str user_id)), (''email'', dict_get doc ''email'' PNone)] None;
                   public_user = [(''_id'', user_id),
                                  (''name'', dict_get doc ''name'' PNone),
                                  (''email'', dict_get doc ''email'' PNone),
                                  (''is_active'', dict_get doc ''is_active'' PNone),
                                  (''role'', dict_get doc ''role'' PNone)]
               in (Inr \<lparr>token = token, user = public_user\<rparr>, Some h'))"

definition login ::
  "prims \<Rightarrow> 'db store \<Rightarrow> int \<Rightarrow> 'db option \<Rightarrow> LoginRequest \<Rightarrow> (error + AuthResponse) \<times> 'db option" where
  "login P S now db payload =
     (case db of
        None \<Rightarrow> (Inl (HTTPException 500 ''Database not configured''), db)
      | Some h \<Rightarrow>
          (case get_documents S h ''user'' [(''email'', PStr (lower (LoginRequest.email payload)))] 1 of
             [] \<Rightarrow> (Inl (HTTPException 401 ''Invalid email or password''), db)
           | u # rest \<Rightarrow>
               if \<not> verify_password P (LoginRequest.password payload)
                        (dict_get u ''password_hash'' (PStr ''''))
               then (Inl (HTTPException 401 ''Invalid email or password''), db)
               else
                 let token = create_access_token P now
                               [(''sub'', PStr (py_str (dict_get u ''_id'' PNone))),
                                (''email'', dict_get u ''email'' PNone)] None;
                     public_user = [(''_id'', PStr (py_str (dict_get u ''_id'' PNone))),
                                    (''name'', dict_get u ''name'' PNone),
                                    (''email'', dict_get u ''email'' PNone),
                                    (''is_active'', dict_get u ''is_active'' (PBool True)),
                                    (''role'', dict_get u ''role'' (PStr ''user''))]
                 in (Inr \<lparr>token = token, user = public_user\<rparr>, Some h)))"

section \<open>The token issuer on a heap of dictionaries\<close>

text \<open>
  \<^verbatim>\<open>create_access_token\<close> receives a reference to the caller's dictionary, copies it and
  updates the copy. A heap is a list of dictionaries, a reference an index into it;
  \<^verbatim>\<open>data.copy()\<close> allocates the next index. A reference outside the heap is no object
  at all: the result is \<open>None\<close>.
\<close>

type_synonym ref = nat

type_synonym heap = "dict list"

definition heap_copy :: "heap \<Rightarrow> ref \<Rightarrow> (ref \<times> heap) option" where
  "heap_copy H r = (if r < length H then Some (length H, H @ [H ! r]) else None)"

definition heap_update :: "heap \<Rightarrow> ref \<Rightarrow> dict \<Rightarrow> heap" where
  "heap_update H r other = H[r := dict_update (H ! r) other]"

definition create_access_token_heap ::
  "prims \<Rightarrow> int \<Rightarrow> heap \<Rightarrow> ref \<Rightarrow> int option \<Rightarrow> (jwt \<times> heap) option" where
  "create_access_token_heap P now H data expires_delta =
     (case heap_copy H data of
        None \<Rightarrow> None
      | Some (to_encode, H1) \<Rightarrow>
          let expire = expiry now expires_delta;
              H2 = heap_update H1 to_encode [(''exp'', PDatetime expire)];
              encoded_jwt = jwt_encode (H2 ! to_encode) (SECRET_KEY P) ALGORITHM
          in Some (encoded_jwt, H2))"

section \<open>The document store\<close>

text \<open>
  Modelled from the spec: the store behind \<^verbatim>\<open>database.db\<close>, whose module is not among the
  sources. A store holds named collections of documents and generates an opaque, unique
  identifier on every insert (spec 3, 4.3).
\<close>

record database =
  next_id :: nat
  collections :: "string \<Rightarrow> dict list"

text \<open>
  Modelled from the spec: the exact-match filter of \<^verbatim>\<open>get_documents\<close> (spec 4.3, "exact-match
  lookup"): a document matches when it holds every item of the filter.
\<close>

definition matches :: "dict \<Rightarrow> dict \<Rightarrow> bool" where
  "matches flt d = list_all (\<lambda>(k, v). map_of d k = Some v) flt"

text \<open>
  Modelled from the spec: \<^verbatim>\<open>get_documents(collection, filter, limit)\<close> of the missing module
  \<^verbatim>\<open>database\<close>: at most \<open>limit\<close> documents of the collection that match (spec 4.3).
\<close>

definition store_get_documents :: "database \<Rightarrow> string \<Rightarrow> dict \<Rightarrow> nat \<Rightarrow> dict list" where
  "store_get_documents db coll flt limit = take limit (filter (matches flt) (collections db coll))"

text \<open>
  Modelled from the spec: \<^verbatim>\<open>create_document(collection, data)\<close> of the missing module
  \<^verbatim>\<open>database\<close>: creates the record and returns its generated identifier (spec 4.3); the
  record keeps the identifier under \<^verbatim>\<open>_id\<close>, where \<^verbatim>\<open>login\<close> reads it.
\<close>

definition store_create_document :: "database \<Rightarrow> string \<Rightarrow> dict \<Rightarrow> pyval \<times> database" where
  "store_create_document db coll data =
     (let oid = PObjectId (next_id db)
      in (oid, db\<lparr>next_id := Suc (next_id db),
                  collections := (collections db)(coll := collections db coll @ [(''_id'', oid) # data])\<rparr>))"

text \<open>Modelled from the spec: the two functions of the missing module as one store.\<close>

definition document_store :: "database store" where
  "document_store = \<lparr>get_documents = store_get_documents, create_document = store_create_document\<rparr>"

section \<open>A concrete instance\<close>

text \<open>
  A hashing context whose hash of a password is the password behind a fixed prefix, an
  e-mail check that asks for an \<open>@\<close>, no environment variable set; an empty store, and
  the store after Ann has signed up with \<^verbatim>\<open>Ann@X.com\<close> and \<^verbatim>\<open>secret1\<close>.
\<close>

definition test_prims :: prims where
  "test_prims = \<lparr>getenv = (\<lambda>k. None),
                 pwd_context_hash = (\<lambda>pw. ''$2b$'' @ pw),
                 pwd_context_verify = (\<lambda>pw h. h = PStr (''$2b$'' @ pw)),
                 EmailStr = (\<lambda>e. CHR ''@'' \<in> set e)\<rparr>"

definition empty_database :: database where
  "empty_database = \<lparr>next_id = 0, collections = (\<lambda>c. [])\<rparr>"

definition ann_document :: dict where
  "ann_document = [(''_id'', PObjectId 0), (''name'', PStr ''Ann''), (''email'', PStr ''ann@x.com''),
                   (''password_hash'', PStr ''$2b$secret1''), (''is_active'', PBool True),
                   (''role'', PStr ''user'')]"

definition ann_database :: database where
  "ann_database = \<lparr>next_id = 1, collections = (\<lambda>c. [])(''user'' := [ann_document])\<rparr>"

definition ann_signup :: SignupRequest where
  "ann_signup = \<lparr>name = ''Ann'', email = ''Ann@X.com'', password = ''secret1''\<rparr>"

section \<open>Strings and dictionaries\<close>

lemma lower_char_idem: "lower_char (lower_char c) = lower_char c"
  by (auto simp: lower_char_def Let_def)

lemma lower_idem: "lower (lower s) = lower s"
  by (simp add: lower_def lower_char_idem)

lemma lower_Ann:
  "lower ''Ann@X.com'' = ''ann@x.com''"
  "lower ''ANN@x.com'' = ''ann@x.com''"
  "lower ''ann@x.com'' = ''ann@x.com''"
  by code_simp+

lemma strip_length_le: "length (strip s) \<le> length s"
proof -
  have "length (strip s) \<le> length (dropWhile is_space s)"
    unfolding strip_def length_rev using length_dropWhile_le [of is_space "rev (dropWhile is_space s)"]
    by simp
  also have "\<dots> \<le> length s" by (rule length_dropWhile_le)
  finally show ?thesis .
qed

lemma strip_examples: "strip ''   '' = ''''" "strip ''Ann'' = ''Ann''"
  by (simp_all add: strip_def is_space_def)

lemma dict_update_single: "dict_update d [(k, v)] = AList.update k v d"
  by (simp add: dict_update_def)

lemma user_doc_get:
  "dict_get (user_doc P p) ''name'' d = PStr (strip (name p))"
  "dict_get (user_doc P p) ''email'' d = PStr (lower (SignupRequest.email p))"
  "dict_get (user_doc P p) ''is_active'' d = PBool True"
  "dict_get (user_doc P p) ''role'' d = PStr ''user''"
  by (simp_all add: user_doc_def dict_get_def)

lemma user_doc_email: "map_of (user_doc P p) ''email'' = Some (PStr (lower (SignupRequest.email p)))"
  by (simp add: user_doc_def)

section \<open>The token issuer\<close>

lemma token_payload:
  "jwt_payload (create_access_token P now [(''sub'', a), (''email'', b)] None) =
     [(''sub'', a), (''email'', b), (''exp'', PDatetime (now + 604800000000))]"
  by (simp add: create_access_token_def jwt_encode_def dict_update_single expiry_def
      timedelta_minutes_def ACCESS_TOKEN_EXPIRE_MINUTES_def)

lemma token_key: "jwt_key (create_access_token P now data ed) = SECRET_KEY P"
  by (simp add: create_access_token_def jwt_encode_def)

section \<open>The handlers, step by step\<close>

lemma signup_fresh:
  assumes "get_documents S h ''user'' [(''email'', PStr (lower (SignupRequest.email p)))] 1 = []"
  shows "signup P S now (Some h) p =
     (Inr \<lparr>token = create_access_token P now
              [(''sub'', PStr (py_str (fst (create_document S h ''user'' (user_doc P p))))),
               (''email'', PStr (lower (SignupRequest.email p)))] None,
           user = [(''_id'', fst (create_document S h ''user'' (user_doc P p))),
                   (''name'', PStr (strip (name p))),
                   (''email'', PStr (lower (SignupRequest.email p))),
                   (''is_active'', PBool True),
                   (''role'', PStr ''user'')]\<rparr>,
      Some (snd (create_document S h ''user'' (user_doc P p))))"
  using assms by (simp add: signup_def Let_def user_doc_get split: prod.splits)

lemma signup_Inr:
  assumes "signup P S now (Some h) p = (Inr r, h1)"
  shows "get_documents S h ''user'' [(''email'', PStr (lower (SignupRequest.email p)))] 1 = []"
  using assms by (auto simp: signup_def Let_def split: if_splits)

lemma signup_duplicate:
  assumes "get_documents S h ''user'' [(''email'', PStr (lower (SignupRequest.email p)))] 1 \<noteq> []"
  shows "signup P S now (Some h) p = (Inl (HTTPException 400 ''Email already registered''), Some h)"
  using assms by (simp add: signup_def)

lemma login_ok:
  assumes "get_documents S h ''user'' [(''email'', PStr (lower (LoginRequest.email q)))] 1 = u # rest"
    and "verify_password P (LoginRequest.password q) (dict_get u ''password_hash'' (PStr ''''))"
  shows "login P S now (Some h) q =
     (Inr \<lparr>token = create_access_token P now
                      [(''sub'', PStr (py_str (dict_get u ''_id'' PNone))),
                       (''email'', dict_get u ''email'' PNone)] None,
           user = [(''_id'', PStr (py_str (dict_get u ''_id'' PNone))),
                   (''name'', dict_get u ''name'' PNone),
                   (''email'', dict_get u ''email'' PNone),
                   (''is_active'', dict_get u ''is_active'' (PBool True)),
                   (''role'', dict_get u ''role'' (PStr ''user''))]\<rparr>, Some h)"
  using assms by (simp add: login_def)

lemma login_Inr:
  assumes "login P S now (Some h) q = (Inr r, h1)"
  shows "\<exists>u rest. get_documents S h ''user'' [(''email'', PStr (lower (LoginRequest.email q)))] 1 = u # rest \<and>
           verify_password P (LoginRequest.password q) (dict_get u ''password_hash'' (PStr ''''))"
  using assms by (auto simp: login_def split: list.splits if_splits)

text \<open>
  A stored record without \<^verbatim>\<open>password_hash\<close>: the handler hands the empty string to
  \<^verbatim>\<open>verify\<close>, and what \<^verbatim>\<open>verify\<close> answers decides the outcome.
\<close>

lemma login_missing_hash:
  assumes "get_documents S h ''user'' [(''email'', PStr (lower (LoginRequest.email q)))] 1 = u # rest"
    and "map_of u ''password_hash'' = None"
  shows "dict_get u ''password_hash'' (PStr '''') = PStr ''''"
    and "\<not> pwd_context_verify P (LoginRequest.password q) (PStr '''') \<Longrightarrow>
         login P S now (Some h) q = (Inl (HTTPException 401 ''Invalid email or password''), Some h)"
  using assms by (simp_all add: login_def dict_get_def verify_password_def)

section \<open>The document store\<close>

lemma take_1_Nil: "(take (Suc 0) xs = []) = (xs = [])"
  by (cases xs) simp_all

lemma matches_single: "matches [(k, v)] d = (map_of d k = Some v)"
  by (simp add: matches_def)

lemma store_lookup_empty:
  "(get_documents document_store db c [(k, v)] 1 = []) =
     (\<forall>d \<in> set (collections db c). map_of d k \<noteq> Some v)"
  unfolding One_nat_def
  by (simp add: document_store_def store_get_documents_def take_1_Nil matches_single filter_empty_conv)


lemma store_insert:
  "create_document document_store db c doc =
     (PObjectId (next_id db),
      db\<lparr>next_id := Suc (next_id db),
         collections := (collections db)(c := collections db c @ [(''_id'', PObjectId (next_id db)) # doc])\<rparr>)"
  by (simp add: document_store_def store_create_document_def Let_def)

lemma store_lookup_after_insert:
  assumes "get_documents document_store db c [(k, v)] 1 = []"
    and "k \<noteq> ''_id''" and "map_of doc k = Some v"
  shows "get_documents document_store (snd (create_document document_store db c doc)) c [(k, v)] 1
           = [(''_id'', PObjectId (next_id db)) # doc]"
proof -
  from assms(1) have "filter (matches [(k, v)]) (collections db c) = []"
    by (simp add: document_store_def store_get_documents_def take_1_Nil)
  moreover have "matches [(k, v)] ((''_id'', PObjectId (next_id db)) # doc)"
    using assms(2,3) by (simp add: matches_single)
  ultimately show ?thesis
    by (simp add: store_insert) (simp add: document_store_def store_get_documents_def)
qed

lemma signup_store_after:
  assumes "signup P document_store now (Some db) p = (Inr r, db1)"
  shows "db1 = Some (snd (create_document document_store db ''user'' (user_doc P p))) \<and>
         get_documents document_store db ''user'' [(''email'', PStr (lower (SignupRequest.email p)))] 1 = [] \<and>
         get_documents document_store (snd (create_document document_store db ''user'' (user_doc P p)))
            ''user'' [(''email'', PStr (lower (SignupRequest.email p)))] 1
           = [(''_id'', PObjectId (next_id db)) # user_doc P p] \<and>
         dict_get (user r) ''_id'' PNone = PObjectId (next_id db) \<and>
         jwt_payload (token r) = [(''sub'', PStr (py_str (PObjectId (next_id db)))),
             (''email'', PStr (lower (SignupRequest.email p))), (''exp'', PDatetime (now + 604800000000))]"
proof -
  have e: "get_documents document_store db ''user'' [(''email'', PStr (lower (SignupRequest.email p)))] 1 = []"
    using assms by (rule signup_Inr)
  have a: "get_documents document_store (snd (create_document document_store db ''user'' (user_doc P p)))
            ''user'' [(''email'', PStr (lower (SignupRequest.email p)))] 1
           = [(''_id'', PObjectId (next_id db)) # user_doc P p]"
    by (rule store_lookup_after_insert [OF e _ user_doc_email]) simp
  from signup_fresh [OF e, of P now] assms
  have r: "db1 = Some (snd (create_document document_store db ''user'' (user_doc P p)))"
    and u: "user r = [(''_id'', fst (create_document document_store db ''user'' (user_doc P p))),
                   (''name'', PStr (strip (name p))),
                   (''email'', PStr (lower (SignupRequest.email p))),
                   (''is_active'', PBool True),
                   (''role'', PStr ''user'')]"
    and t: "token r = create_access_token P now
              [(''sub'', PStr (py_str (fst (create_document document_store db ''user'' (user_doc P p))))),
               (''email'', PStr (lower (SignupRequest.email p)))] None"
    by auto
  show ?thesis using e a r
    by (simp add: u t token_payload dict_get_def) (simp add: store_insert)
qed

text \<open>Signing Ann up on the empty store gives the store \<open>ann_database\<close>.\<close>

lemma ann_signup_run:
  "signup test_prims document_store T (Some empty_database) ann_signup =
     (Inr \<lparr>token = JWT [(''sub'', PStr (py_str (PObjectId 0))), (''email'', PStr ''ann@x.com''),
                        (''exp'', PDatetime (T + 604800000000))] ''dev-secret-change-me'' ''HS256'',
           user = [(''_id'', PObjectId 0), (''name'', PStr ''Ann''), (''email'', PStr ''ann@x.com''),
                   (''is_active'', PBool True), (''role'', PStr ''user'')]\<rparr>,
      Some ann_database)"
proof -
  have e: "get_documents document_store empty_database ''user''
             [(''email'', PStr (lower (SignupRequest.email ann_signup)))] 1 = []"
    by (simp add: document_store_def store_get_documents_def empty_database_def)
  show ?thesis
    unfolding signup_fresh [OF e] store_insert
    by (simp add: ann_signup_def lower_Ann strip_examples create_access_token_def jwt_encode_def
        dict_update_single expiry_def timedelta_minutes_def ACCESS_TOKEN_EXPIRE_MINUTES_def
        SECRET_KEY_def ALGORITHM_def test_prims_def empty_database_def ann_database_def
        ann_document_def user_doc_def hash_password_def)
qed

lemma ann_lookup:
  "get_documents document_store ann_database ''user'' [(''email'', PStr ''ann@x.com'')] 1 = [ann_document]"
  by (simp add: document_store_def store_get_documents_def ann_database_def matches_def ann_document_def)

lemma ann_login_run:
  "login test_prims document_store T (Some ann_database)
       \<lparr>email = ''ANN@x.com'', password = ''secret1''\<rparr> =
     (Inr \<lparr>token = JWT [(''sub'', PStr (py_str (PObjectId 0))), (''email'', PStr ''ann@x.com''),
                        (''exp'', PDatetime (T + 604800000000))] ''dev-secret-change-me'' ''HS256'',
           user = [(''_id'', PStr (py_str (PObjectId 0))), (''name'', PStr ''Ann''),
                   (''email'', PStr ''ann@x.com''), (''is_active'', PBool True),
                   (''role'', PStr ''user'')]\<rparr>,
      Some ann_database)"
proof -
  have l: "get_documents document_store ann_database ''user''
             [(''email'', PStr (lower (LoginRequest.email \<lparr>email = ''ANN@x.com'', password = ''secret1''\<rparr>)))] 1
           = ann_document # []"
    using ann_lookup by (simp add: lower_Ann)
  have v: "verify_password test_prims (LoginRequest.password \<lparr>email = ''ANN@x.com'', password = ''secret1''\<rparr>)
             (dict_get ann_document ''password_hash'' (PStr ''''))"
    by (simp add: verify_password_def test_prims_def dict_get_def ann_document_def)
  show ?thesis
    unfolding login_ok [OF l v]
    by (simp add: create_access_token_def jwt_encode_def dict_update_single expiry_def
        timedelta_minutes_def ACCESS_TOKEN_EXPIRE_MINUTES_def SECRET_KEY_def ALGORITHM_def
        test_prims_def dict_get_def ann_document_def)
qed

section \<open>Signup\<close>

text \<open>
  C1. A signup whose lookup of the lowercased e-mail finds no user (the store handle being
  set) returns a response: a token signed with the secret key, and a public user whose
  \<^verbatim>\<open>email\<close> is the lowercased input e-mail and which has no key \<^verbatim>\<open>password_hash\<close>. This
  holds for every payload, valid or not, and for every implementation of the store.
\<close>

theorem signup_fresh_email_response:
  assumes "get_documents S h ''user'' [(''email'', PStr (lower (SignupRequest.email p)))] 1 = []"
  shows "\<exists>r h'. signup P S now (Some h) p = (Inr r, Some h') \<and>
           jwt_key (token r) = SECRET_KEY P \<and>
           map_of (jwt_payload (token r)) ''email'' = Some (PStr (lower (SignupRequest.email p))) \<and>
           map_of (user r) ''email'' = Some (PStr (lower (SignupRequest.email p))) \<and>
           ''password_hash'' \<notin> fst ` set (user r)"
  using signup_fresh [OF assms, of P now]
  by (simp add: token_payload token_key)

theorem signup_fresh_email_response_witness:
  "get_documents document_store empty_database ''user''
      [(''email'', PStr (lower (SignupRequest.email ann_signup)))] 1 = [] \<and>
   SignupRequest_valid test_prims ann_signup \<and>
   (\<exists>r h'. signup test_prims document_store 0 (Some empty_database) ann_signup = (Inr r, Some h') \<and>
        jwt_key (token r) = ''dev-secret-change-me'' \<and>
        map_of (jwt_payload (token r)) ''email'' = Some (PStr ''ann@x.com'') \<and>
        map_of (user r) ''email'' = Some (PStr ''ann@x.com'') \<and>
        ''password_hash'' \<notin> fst ` set (user r))"
proof -
  have h: "get_documents document_store empty_database ''user''
      [(''email'', PStr (lower (SignupRequest.email ann_signup)))] 1 = []"
    by (simp add: document_store_def store_get_documents_def empty_database_def)
  have v: "SignupRequest_valid test_prims ann_signup"
    by (simp add: SignupRequest_valid_def test_prims_def ann_signup_def)
  show ?thesis
    using h v signup_fresh_email_response [OF h, of test_prims 0]
    by (simp add: ann_signup_def lower_Ann SECRET_KEY_def test_prims_def)
qed

text \<open>
  C2. When the user collection of the store holds a record whose \<^verbatim>\<open>email\<close> is \<open>lower e\<close>,
  a signup with any e-mail of the same lowercase form raises the 400 error "Email already
  registered" and leaves the store as it was. In particular, after one successful signup
  a second signup with the same e-mail up to case raises that error.
\<close>

theorem signup_duplicate_email:
  "(lower (SignupRequest.email p) = lower e \<and>
    (\<exists>d \<in> set (collections db ''user''). map_of d ''email'' = Some (PStr (lower e)))
     \<longrightarrow> signup P document_store now (Some db) p
           = (Inl (HTTPException 400 ''Email already registered''), Some db)) \<and>
   (signup P document_store ta (Some dba) pa = (Inr ra, Some dbb) \<and>
    lower (SignupRequest.email pb) = lower (SignupRequest.email pa)
     \<longrightarrow> signup Q document_store tb (Some dbb) pb
           = (Inl (HTTPException 400 ''Email already registered''), Some dbb))"
proof (intro conjI impI)
  assume a: "lower (SignupRequest.email p) = lower e \<and>
    (\<exists>d \<in> set (collections db ''user''). map_of d ''email'' = Some (PStr (lower e)))"
  then have "get_documents document_store db ''user'' [(''email'', PStr (lower (SignupRequest.email p)))] 1 \<noteq> []"
    using store_lookup_empty [of db "''user''" "''email''" "PStr (lower e)"] by auto
  then show "signup P document_store now (Some db) p
           = (Inl (HTTPException 400 ''Email already registered''), Some db)"
    by (rule signup_duplicate)
next
  assume a: "signup P document_store ta (Some dba) pa = (Inr ra, Some dbb) \<and>
    lower (SignupRequest.email pb) = lower (SignupRequest.email pa)"
  from signup_store_after [of P ta dba pa ra "Some dbb"] a
  have "get_documents document_store dbb ''user'' [(''email'', PStr (lower (SignupRequest.email pb)))] 1 \<noteq> []"
    by auto
  then show "signup Q document_store tb (Some dbb) pb
           = (Inl (HTTPException 400 ''Email already registered''), Some dbb)"
    by (rule signup_duplicate)
qed

theorem signup_duplicate_email_witness:
  "lower ''ANN@x.com'' = lower ''ann@x.com'' \<and>
   (\<exists>d \<in> set (collections ann_database ''user''). map_of d ''email'' = Some (PStr (lower ''ann@x.com''))) \<and>
   signup test_prims document_store 7 (Some ann_database)
       \<lparr>name = ''Anna'', email = ''ANN@x.com'', password = ''hunter22''\<rparr>
     = (Inl (HTTPException 400 ''Email already registered''), Some ann_database) \<and>
   (\<exists>ra. signup test_prims document_store 0 (Some empty_database) ann_signup = (Inr ra, Some ann_database)) \<and>
   lower ''ANN@x.com'' = lower (SignupRequest.email ann_signup) \<and>
   signup test_prims document_store 9 (Some ann_database)
       \<lparr>name = ''Anna'', email = ''ANN@x.com'', password = ''hunter22''\<rparr>
     = (Inl (HTTPException 400 ''Email already registered''), Some ann_database)"
proof -
  let ?pb = "\<lparr>name = ''Anna'', email = ''ANN@x.com'', password = ''hunter22''\<rparr>"
  have l: "lower ''ANN@x.com'' = lower ''ann@x.com''"
    by (simp add: lower_Ann)
  have m: "\<exists>d \<in> set (collections ann_database ''user''). map_of d ''email'' = Some (PStr (lower ''ann@x.com''))"
    by (simp add: lower_Ann ann_database_def ann_document_def)
  have e: "lower ''ANN@x.com'' = lower (SignupRequest.email ann_signup)"
    by (simp add: ann_signup_def lower_Ann)
  note t = signup_duplicate_email [where p = ?pb and e = "''ann@x.com''" and db = ann_database
      and P = test_prims and now = 7 and ta = 0 and dba = empty_database and pa = ann_signup
      and dbb = ann_database and pb = ?pb and Q = test_prims and tb = 9]
  show ?thesis
    using l m e t ann_signup_run [of 0] by simp
qed

text \<open>
  What a persisted record is sure to satisfy. The record handed to \<^verbatim>\<open>create_document\<close> by a signup with a
  valid payload has a stripped name of at most 80 characters, a lowercase e-mail,
  \<^verbatim>\<open>is_active\<close> true and the role \<^verbatim>\<open>user\<close>. The length of the name is checked before it is
  stripped: no lower bound on the stored name follows.
\<close>

lemma user_doc_fields:
  assumes "SignupRequest_valid P p"
  shows "\<exists>n e. map_of (user_doc P p) ''name'' = Some (PStr n) \<and> n = strip (name p) \<and> length n \<le> 80 \<and>
           map_of (user_doc P p) ''email'' = Some (PStr e) \<and> lower e = e \<and>
           map_of (user_doc P p) ''is_active'' = Some (PBool True) \<and>
           map_of (user_doc P p) ''role'' = Some (PStr ''user'')"
  using assms strip_length_le [of "name p"]
  by (simp add: user_doc_def SignupRequest_valid_def lower_idem)

text \<open>
  C6. A valid payload whose name is three spaces passes the length check of
  \<^verbatim>\<open>SignupRequest\<close> (2 to 80 characters), and signup persists a record whose name is the
  empty string: the stored name is shorter than 2 characters.
\<close>

theorem signup_persists_empty_name:
  "SignupRequest_valid test_prims \<lparr>name = ''   '', email = ''bob@x.com'', password = ''secret1''\<rparr> \<and>
   (\<exists>r db1. signup test_prims document_store 0 (Some empty_database)
                \<lparr>name = ''   '', email = ''bob@x.com'', password = ''secret1''\<rparr> = (Inr r, Some db1) \<and>
       collections db1 ''user'' =
         [[(''_id'', PObjectId 0), (''name'', PStr ''''), (''email'', PStr ''bob@x.com''),
           (''password_hash'', PStr ''$2b$secret1''), (''is_active'', PBool True),
           (''role'', PStr ''user'')]] \<and>
       map_of (user r) ''name'' = Some (PStr ''''))"
proof -
  let ?p = "\<lparr>name = ''   '', email = ''bob@x.com'', password = ''secret1''\<rparr>"
  have b: "lower ''bob@x.com'' = ''bob@x.com''"
    by code_simp
  have e: "get_documents document_store empty_database ''user''
             [(''email'', PStr (lower (SignupRequest.email ?p)))] 1 = []"
    by (simp add: document_store_def store_get_documents_def empty_database_def)
  have v: "SignupRequest_valid test_prims ?p"
    by (simp add: SignupRequest_valid_def test_prims_def)
  show ?thesis
    unfolding signup_fresh [OF e] store_insert
    using v
    by (simp add: b strip_examples user_doc_def hash_password_def test_prims_def empty_database_def)
qed

section \<open>Login\<close>

text \<open>
  C3. A login that finds no user with the lowercased e-mail and a login that finds one but
  whose password does not verify raise the same exception, status 401 and detail "Invalid
  email or password", whatever the store, the hashing context, the time and the request.
\<close>

theorem login_failures_identical:
  assumes "get_documents S h ''user'' [(''email'', PStr (lower (LoginRequest.email q)))] 1 = []"
    and "get_documents S' h' ''user'' [(''email'', PStr (lower (LoginRequest.email q')))] 1 = u # rest"
    and "\<not> verify_password P' (LoginRequest.password q') (dict_get u ''password_hash'' (PStr ''''))"
  shows "login P S now (Some h) q = (Inl (HTTPException 401 ''Invalid email or password''), Some h) \<and>
         login P' S' now' (Some h') q' = (Inl (HTTPException 401 ''Invalid email or password''), Some h') \<and>
         fst (login P S now (Some h) q) = fst (login P' S' now' (Some h') q')"
  using assms by (simp add: login_def)

theorem login_failures_identical_witness:
  "get_documents document_store ann_database ''user''
      [(''email'', PStr (lower (LoginRequest.email \<lparr>email = ''bob@x.com'', password = ''secret1''\<rparr>)))] 1 = [] \<and>
   get_documents document_store ann_database ''user''
      [(''email'', PStr (lower (LoginRequest.email \<lparr>email = ''ANN@x.com'', password = ''hunter22''\<rparr>)))] 1
     = ann_document # [] \<and>
   \<not> verify_password test_prims (LoginRequest.password \<lparr>email = ''ANN@x.com'', password = ''hunter22''\<rparr>)
        (dict_get ann_document ''password_hash'' (PStr '''')) \<and>
   login test_prims document_store 3 (Some ann_database) \<lparr>email = ''bob@x.com'', password = ''secret1''\<rparr>
     = (Inl (HTTPException 401 ''Invalid email or password''), Some ann_database) \<and>
   login test_prims document_store 4 (Some ann_database) \<lparr>email = ''ANN@x.com'', password = ''hunter22''\<rparr>
     = (Inl (HTTPException 401 ''Invalid email or password''), Some ann_database)"
proof -
  let ?q = "\<lparr>email = ''bob@x.com'', password = ''secret1''\<rparr>"
  let ?q' = "\<lparr>email = ''ANN@x.com'', password = ''hunter22''\<rparr>"
  have b: "lower ''bob@x.com'' = ''bob@x.com''"
    by code_simp
  have n: "get_documents document_store ann_database ''user''
      [(''email'', PStr (lower (LoginRequest.email ?q)))] 1 = []"
    by (simp add: b document_store_def store_get_documents_def ann_database_def matches_def ann_document_def)
  have f: "get_documents document_store ann_database ''user''
      [(''email'', PStr (lower (LoginRequest.email ?q')))] 1 = ann_document # []"
    using ann_lookup by (simp add: lower_Ann)
  have w: "\<not> verify_password test_prims (LoginRequest.password ?q')
        (dict_get ann_document ''password_hash'' (PStr ''''))"
    by (simp add: verify_password_def test_prims_def dict_get_def ann_document_def)
  show ?thesis
    using n f w login_failures_identical [OF n f w, of test_prims 3 4] by simp
qed

section \<open>Both handlers\<close>

text \<open>
  C7. With the store handle unset, signup and login raise the 500 error "Database not
  configured" whatever the two store functions are, so neither is consulted, and the
  handle stays unset. That exception differs from the 401 of a failed login and from the
  400 of a duplicate e-mail.
\<close>

theorem store_unset_is_service_unavailable:
  "signup P S now None p = (Inl (HTTPException 500 ''Database not configured''), None) \<and>
   login P S now None q = (Inl (HTTPException 500 ''Database not configured''), None) \<and>
   HTTPException 500 ''Database not configured'' \<noteq> HTTPException 401 ''Invalid email or password'' \<and>
   HTTPException 500 ''Database not configured'' \<noteq> HTTPException 400 ''Email already registered'' \<and>
   status_code (HTTPException 500 ''Database not configured'') = 500"
  by (simp add: signup_def login_def)

section \<open>Tokens\<close>



text \<open>
  C10. \<^verbatim>\<open>create_access_token\<close> on a heap: for every reference \<open>data\<close> to a dictionary of
  the heap the call returns, the dictionary at \<open>data\<close> and every other dictionary of the
  caller's heap are unchanged afterwards, and the token is the one computed from a copy
  of the caller's dictionary.
\<close>

theorem create_access_token_keeps_data:
  assumes "data < length H"
  shows "\<exists>tok H'. create_access_token_heap P now H data expires_delta = Some (tok, H') \<and>
           H' ! data = H ! data \<and> take (length H) H' = H \<and>
           tok = create_access_token P now (H ! data) expires_delta"
  using assms
  by (simp add: create_access_token_heap_def heap_copy_def heap_update_def Let_def
      create_access_token_def nth_append)

theorem create_access_token_keeps_data_witness:
  "(0::nat) < length [[(''sub'', PStr ''7''), (''email'', PStr ''ann@x.com'')]] \<and>
   create_access_token_heap test_prims 1000 [[(''sub'', PStr ''7''), (''email'', PStr ''ann@x.com'')]] 0 None
     = Some (JWT [(''sub'', PStr ''7''), (''email'', PStr ''ann@x.com''), (''exp'', PDatetime 604800001000)]
                 ''dev-secret-change-me'' ''HS256'',
             [[(''sub'', PStr ''7''), (''email'', PStr ''ann@x.com'')],
              [(''sub'', PStr ''7''), (''email'', PStr ''ann@x.com''), (''exp'', PDatetime 604800001000)]])"
proof -
  let ?H = "[[(''sub'', PStr ''7''), (''email'', PStr ''ann@x.com'')]]"
  have h: "(0::nat) < length ?H" by simp
  show ?thesis
    using h create_access_token_keeps_data [OF h, of test_prims 1000 None]
    by (simp add: create_access_token_heap_def heap_copy_def heap_update_def Let_def
        jwt_encode_def dict_update_single expiry_def timedelta_minutes_def
        ACCESS_TOKEN_EXPIRE_MINUTES_def SECRET_KEY_def ALGORITHM_def test_prims_def)
qed

section \<open>Signup, then login\<close>



section \<open>The identifier of the public user\<close>

text \<open>
  C9. In the response of either handler the public user has the key \<^verbatim>\<open>_id\<close> and no key
  \<^verbatim>\<open>id\<close>. Signup puts there the value \<^verbatim>\<open>create_document\<close> returned, as it is; login puts
  the text of the stored \<^verbatim>\<open>_id\<close>, a string. On the document store, whose identifiers are
  no strings, the two differ in type.
\<close>

theorem public_user_id:
  "(signup P S now (Some h) p = (Inr r, h1) \<longrightarrow>
      map_of (user r) ''_id'' = Some (fst (create_document S h ''user'' (user_doc P p))) \<and>
      map_of (user r) ''id'' = None) \<and>
   (login P S now (Some h) q = (Inr r', h2) \<longrightarrow>
      map_of (user r') ''_id''
        = Some (PStr (py_str (dict_get (hd (get_documents S h ''user''
                   [(''email'', PStr (lower (LoginRequest.email q)))] 1)) ''_id'' PNone))) \<and>
      map_of (user r') ''id'' = None \<and>
      is_str (dict_get (user r') ''_id'' PNone)) \<and>
   (signup P document_store now (Some db) p = (Inr rs, d1) \<longrightarrow>
      \<not> is_str (dict_get (user rs) ''_id'' PNone))"
proof (intro conjI impI)
  assume a: "signup P S now (Some h) p = (Inr r, h1)"
  from signup_fresh [OF signup_Inr [OF a], of P now] a
  show "map_of (user r) ''_id'' = Some (fst (create_document S h ''user'' (user_doc P p)))"
    and "map_of (user r) ''id'' = None"
    by auto
next
  assume a: "login P S now (Some h) q = (Inr r', h2)"
  from login_Inr [OF a] obtain u rest where
    l: "get_documents S h ''user'' [(''email'', PStr (lower (LoginRequest.email q)))] 1 = u # rest"
    and v: "verify_password P (LoginRequest.password q) (dict_get u ''password_hash'' (PStr ''''))"
    by blast
  from a have u: "user r' = [(''_id'', PStr (py_str (dict_get u ''_id'' PNone))),
                   (''name'', dict_get u ''name'' PNone),
                   (''email'', dict_get u ''email'' PNone),
                   (''is_active'', dict_get u ''is_active'' (PBool True)),
                   (''role'', dict_get u ''role'' (PStr ''user''))]"
    unfolding login_ok [OF l v] by auto
  show "map_of (user r') ''_id''
        = Some (PStr (py_str (dict_get (hd (get_documents S h ''user''
                   [(''email'', PStr (lower (LoginRequest.email q)))] 1)) ''_id'' PNone)))"
    and "map_of (user r') ''id'' = None"
    and "is_str (dict_get (user r') ''_id'' PNone)"
    using l by (simp_all add: u dict_get_def)
next
  assume a: "signup P document_store now (Some db) p = (Inr rs, d1)"
  from signup_store_after [OF a]
  show "\<not> is_str (dict_get (user rs) ''_id'' PNone)"
    by simp
qed

theorem public_user_id_witness:
  "\<exists>r r'. signup test_prims document_store 0 (Some empty_database) ann_signup = (Inr r, Some ann_database) \<and>
      login test_prims document_store 5 (Some ann_database) \<lparr>email = ''ANN@x.com'', password = ''secret1''\<rparr>
        = (Inr r', Some ann_database) \<and>
      map_of (user r) ''_id'' = Some (PObjectId 0) \<and> map_of (user r) ''id'' = None \<and>
      map_of (user r') ''_id'' = Some (PStr (py_str (PObjectId 0))) \<and> map_of (user r') ''id'' = None \<and>
      \<not> is_str (dict_get (user r) ''_id'' PNone) \<and> is_str (dict_get (user r') ''_id'' PNone)"
proof -
  let ?q = "\<lparr>email = ''ANN@x.com'', password = ''secret1''\<rparr>"
  obtain r where r: "signup test_prims document_store 0 (Some empty_database) ann_signup = (Inr r, Some ann_database)"
    using ann_signup_run [of 0] by simp
  obtain r' where r': "login test_prims document_store 5 (Some ann_database) ?q = (Inr r', Some ann_database)"
    using ann_login_run [of 5] by simp
  have g: "get_documents document_store ann_database ''user''
             [(''email'', PStr (lower (LoginRequest.email ?q)))] 1 = [ann_document]"
    using ann_lookup by (simp add: lower_Ann)
  note s = public_user_id [where P = test_prims and S = document_store and now = 0
      and h = empty_database and p = ann_signup and r = r and ?h1.0 = "Some ann_database"
      and db = empty_database and rs = r and ?d1.0 = "Some ann_database"]
  note l = public_user_id [where P = test_prims and S = document_store and now = 5
      and h = ann_database and q = ?q and r' = r' and ?h2.0 = "Some ann_database"]
  from s l r r' g
  have "map_of (user r) ''_id'' = Some (PObjectId 0) \<and> map_of (user r) ''id'' = None \<and>
      map_of (user r') ''_id'' = Some (PStr (py_str (PObjectId 0))) \<and> map_of (user r') ''id'' = None \<and>
      \<not> is_str (dict_get (user r) ''_id'' PNone) \<and> is_str (dict_get (user r') ''_id'' PNone)"
    by (auto simp: store_insert empty_database_def ann_document_def dict_get_def)
  with r r' show ?thesis by blast
qed

end
